theory Spec2Isabelle
  imports Main
begin

section \<open>Python values: exceptions, dictionaries, decimal text\<close>

text \<open>
  A raised exception is a value: its class and the text that \<^verbatim>\<open>str(e)\<close> gives
  (for pydantic's \<open>ValidationError\<close>, the first line of that text).
  A computation that may raise returns \<open>py_exception + 'a\<close>, with \<open>Inl\<close> the exception.
  \<open>PrismaError\<close> stands for any error raised by the entity store client.
\<close>

datatype py_exception =
    PermissionError string
  | AttributeError string
  | NameError string
  | ValueError string
  | KeyError string
  | ValidationError string
  | PrismaError string

fun str_exception :: "py_exception \<Rightarrow> string" where
  "str_exception (PermissionError m) = m"
| "str_exception (AttributeError m) = m"
| "str_exception (NameError m) = m"
| "str_exception (ValueError m) = m"
| "str_exception (KeyError m) = m"
| "str_exception (ValidationError m) = m"
| "str_exception (PrismaError m) = m"

text \<open>
  A Python \<^verbatim>\<open>dict\<close> keeps its keys in insertion order, and the program reads that
  order back (\<^verbatim>\<open>.items()\<close>), so a dict is an association list with distinct keys:
  assigning to a present key keeps its place, assigning to a new key appends it.
\<close>

type_synonym ('k, 'v) dict = "('k \<times> 'v) list"

definition dict_contains :: "'k \<Rightarrow> ('k, 'v) dict \<Rightarrow> bool" where
  "dict_contains k d = (map_of d k \<noteq> None)"

fun dict_setitem :: "'k \<Rightarrow> 'v \<Rightarrow> ('k, 'v) dict \<Rightarrow> ('k, 'v) dict" where
  "dict_setitem k v [] = [(k, v)]"
| "dict_setitem k v ((k', v') # d) =
     (if k' = k then (k', v) # d else (k', v') # dict_setitem k v d)"

text \<open>\<^verbatim>\<open>d[k]\<close> raises KeyError on a missing key; \<open>repr\<close> renders the key for the message.\<close>

definition dict_getitem :: "('k \<Rightarrow> string) \<Rightarrow> 'k \<Rightarrow> ('k, 'v) dict \<Rightarrow> py_exception + 'v" where
  "dict_getitem repr k d = (case map_of d k of None \<Rightarrow> Inl (KeyError (repr k)) | Some v \<Rightarrow> Inr v)"

definition digit_char :: "nat \<Rightarrow> char" where
  "digit_char d = ''0123456789'' ! (d mod 10)"

fun str_nat :: "nat \<Rightarrow> string" where
  "str_nat n = (if n < 10 then [digit_char n] else str_nat (n div 10) @ [digit_char n])"

declare str_nat.simps [simp del]

text \<open>A number in at least two digits, with a leading zero below ten.\<close>

definition pad2 :: "nat \<Rightarrow> string" where
  "pad2 n = (if n < 10 then CHR ''0'' # str_nat n else str_nat n)"

definition str_int :: "int \<Rightarrow> string" where
  "str_int i = (if i < 0 then CHR ''-'' # str_nat (nat (- i)) else str_nat (nat i))"

definition repr_str :: "string \<Rightarrow> string" where
  "repr_str s = CHR 0x27 # s @ [CHR 0x27]"

text \<open>Reading an attribute of \<^verbatim>\<open>None\<close> raises AttributeError.\<close>

definition NoneType_AttributeError :: "string \<Rightarrow> py_exception" where
  "NoneType_AttributeError attr =
     AttributeError (repr_str ''NoneType'' @ '' object has no attribute '' @ repr_str attr)"

text \<open>
  \<^verbatim>\<open>max(values)\<close> raises ValueError on an empty argument.
\<close>

definition py_max :: "int list \<Rightarrow> py_exception + int" where
  "py_max xs = (case xs of
       [] \<Rightarrow> Inl (ValueError ''max() arg is an empty sequence'')
     | y # ys \<Rightarrow> Inr (fold max ys y))"

text \<open>
  \<^verbatim>\<open>sorted(xs, key=key, reverse=True)\<close>: a stable sort in which every comparison is
  reversed. Elements are inserted from the right, each one in front of the first element
  whose key is not greater, so elements with equal keys keep the order they had in \<open>xs\<close>.
\<close>

fun insort_reverse :: "('a \<Rightarrow> int) \<Rightarrow> 'a \<Rightarrow> 'a list \<Rightarrow> 'a list" where
  "insort_reverse key x [] = [x]"
| "insort_reverse key x (y # ys) =
     (if key y \<le> key x then x # y # ys else y # insort_reverse key x ys)"

definition sorted_reverse :: "('a \<Rightarrow> int) \<Rightarrow> 'a list \<Rightarrow> 'a list" where
  "sorted_reverse key xs = foldr (insort_reverse key) xs []"

text \<open>
  \<^verbatim>\<open>collections.Counter(xs)\<close>: one pass over \<open>xs\<close>, each element's count read with
  default 0 and stored incremented.
\<close>

fun Counter_update :: "'a list \<Rightarrow> ('a, int) dict \<Rightarrow> ('a, int) dict" where
  "Counter_update [] d = d"
| "Counter_update (x # xs) d =
     Counter_update xs (dict_setitem x ((case map_of d x of None \<Rightarrow> 0 | Some c \<Rightarrow> c) + 1) d)"

definition Counter :: "'a list \<Rightarrow> ('a, int) dict" where
  "Counter xs = Counter_update xs []"

text \<open>
  A Python \<^verbatim>\<open>set\<close> as a duplicate-free list. The sets of this program never hold more
  than one element, so the order in which \<^verbatim>\<open>list(s)\<close> reads them does not matter.
\<close>

definition set_add :: "'a \<Rightarrow> 'a list \<Rightarrow> 'a list" where
  "set_add x s = (if x \<in> set s then s else s @ [x])"

section \<open>Data model\<close>

text \<open>
  The entities as the handlers read them. Relations are held as the queries of the
  handlers load them: an order fetched with
  \<^verbatim>\<open>include={"items": {"include": {"item": True}}, "customer": True}\<close> carries its
  customer and its line items, each line item its inventory item.
  A role is the name of a member of the enum \<^verbatim>\<open>prisma.enums.Role\<close>.
\<close>

record datetime =
  year :: nat
  month :: nat
  day :: nat
  hour :: nat
  minute :: nat
  second :: nat

record User =
  user_id :: int
  role :: string

record InventoryItem =
  inv_id :: int
  inv_name :: string
  inv_quantity :: int

record OrderItem =
  oi_id :: int
  oi_itemId :: int
  oi_quantity :: int
  oi_item :: InventoryItem

record Customer =
  cust_id :: int

record Order =
  order_id :: int
  placedAt :: datetime
  customer :: Customer
  items :: "OrderItem list"

record InventoryLog =
  log_id :: int
  log_itemId :: int
  changedBy :: int
  changeType :: string
  amount :: int

section \<open>analyzeSalesTrends\<close>

text \<open>
  \<^verbatim>\<open>placedAt.strftime("%Y-%m")\<close>: the year in decimal, as the C library prints it
  (no padding: year 999 gives \<^verbatim>\<open>999\<close>), a dash, the month in two digits.
\<close>

definition strftime_Y_m :: "datetime \<Rightarrow> string" where
  "strftime_Y_m t = str_nat (year t) @ ''-'' @ pad2 (month t)"

record trend_data =
  td_count :: int
  td_segments :: "string option list"

record customer_trend =
  order_count :: int
  segments :: "string option list"

text \<open>
  The response class declares \<^verbatim>\<open>peak_periods: List[str]\<close>,
  \<^verbatim>\<open>top_products: List[str]\<close> and \<^verbatim>\<open>customer_trends: Dict[str, Dict]\<close>.
\<close>

record SalesTrendsResponse =
  peak_periods :: "string list"
  top_products :: "string list"
  customer_trends :: "(string, customer_trend) dict"

text \<open>
  Its constructor validates the arguments (pydantic 2, the version is not pinned in the
  sources). A \<^verbatim>\<open>str\<close> field takes a string and refuses an integer; every refused key
  of \<open>customer_trends\<close> is one error, and with any error the constructor raises
  ValidationError, whose first line counts the errors. The two lists are lists of strings
  by construction and the values of \<open>customer_trends\<close> are dicts.
\<close>

datatype py_value = PyInt int | PyStr string

fun validate_str :: "py_value \<Rightarrow> string option" where
  "validate_str (PyStr v) = Some v"
| "validate_str (PyInt i) = None"

definition validation_title :: "nat \<Rightarrow> string \<Rightarrow> string" where
  "validation_title n cls =
     (if n = 1 then ''1 validation error for '' @ cls
      else str_nat n @ '' validation errors for '' @ cls)"

definition SalesTrendsResponse_init ::
  "string list \<Rightarrow> string list \<Rightarrow> (py_value, customer_trend) dict \<Rightarrow>
   py_exception + SalesTrendsResponse" where
  "SalesTrendsResponse_init peak_periods_arg top_products_arg customer_trends_arg =
     (let errors = filter (\<lambda>kv. validate_str (fst kv) = None) customer_trends_arg
      in if errors = []
         then Inr \<lparr>peak_periods = peak_periods_arg,
                   top_products = top_products_arg,
                   customer_trends =
                     concat (map (\<lambda>kv. case validate_str (fst kv) of
                                          None \<Rightarrow> [] | Some k \<Rightarrow> [(k, snd kv)])
                                 customer_trends_arg)\<rparr>
         else Inl (ValidationError (validation_title (length errors) ''SalesTrendsResponse'')))"

text \<open>The inner loop \<^verbatim>\<open>for item in order.items\<close> over \<open>top_products_count\<close>.\<close>

fun items_loop :: "OrderItem list \<Rightarrow> (string, int) dict \<Rightarrow> py_exception + (string, int) dict" where
  "items_loop [] top_products_count = Inr top_products_count"
| "items_loop (item # rest) top_products_count =
     (let product_name = inv_name (oi_item item);
          tpc1 = (if \<not> dict_contains product_name top_products_count
                  then dict_setitem product_name 0 top_products_count
                  else top_products_count)
      in case dict_getitem repr_str product_name tpc1 of
           Inl e \<Rightarrow> Inl e
         | Inr c \<Rightarrow> items_loop rest (dict_setitem product_name (c + oi_quantity item) tpc1))"

text \<open>The customer part of the body of \<^verbatim>\<open>for order in orders\<close>.\<close>

definition customer_step ::
  "string option \<Rightarrow> Order \<Rightarrow> (int, trend_data) dict \<Rightarrow> py_exception + (int, trend_data) dict" where
  "customer_step customer_segment order customers_trend =
     (let customer_id = cust_id (customer order);
          ct1 = (if \<not> dict_contains customer_id customers_trend
                 then dict_setitem customer_id \<lparr>td_count = 0, td_segments = []\<rparr> customers_trend
                 else customers_trend)
      in case dict_getitem str_int customer_id ct1 of
           Inl e \<Rightarrow> Inl e
         | Inr data \<Rightarrow>
            (let ct2 = dict_setitem customer_id (data\<lparr>td_count := td_count data + 1\<rparr>) ct1
             in case dict_getitem str_int customer_id ct2 of
                  Inl e \<Rightarrow> Inl e
                | Inr data2 \<Rightarrow>
                    Inr (dict_setitem customer_id
                          (data2\<lparr>td_segments := set_add customer_segment (td_segments data2)\<rparr>) ct2)))"

text \<open>The loop \<^verbatim>\<open>for order in orders\<close> over the three accumulators.\<close>

fun orders_loop ::
  "string option \<Rightarrow> Order list \<Rightarrow>
   string list \<times> (string, int) dict \<times> (int, trend_data) dict \<Rightarrow>
   py_exception + string list \<times> (string, int) dict \<times> (int, trend_data) dict" where
  "orders_loop customer_segment [] st = Inr st"
| "orders_loop customer_segment (order # rest) (peak_periods_list, top_products_count, customers_trend) =
     (let month = strftime_Y_m (placedAt order)
      in case items_loop (items order) top_products_count of
           Inl e \<Rightarrow> Inl e
         | Inr tpc \<Rightarrow>
            (case customer_step customer_segment order customers_trend of
               Inl e \<Rightarrow> Inl e
             | Inr ct \<Rightarrow> orders_loop customer_segment rest (peak_periods_list @ [month], tpc, ct)))"

text \<open>
  The comprehension that selects the peak periods. Its condition, and so
  \<^verbatim>\<open>max(peak_periods_count.values())\<close>, is evaluated once for every item visited.
\<close>

fun peak_comprehension :: "(string \<times> int) list \<Rightarrow> (string, int) dict \<Rightarrow> py_exception + string list" where
  "peak_comprehension [] peak_periods_count = Inr []"
| "peak_comprehension ((period, count) # rest) peak_periods_count =
     (case py_max (map snd peak_periods_count) of
        Inl e \<Rightarrow> Inl e
      | Inr m \<Rightarrow>
         (case peak_comprehension rest peak_periods_count of
            Inl e \<Rightarrow> Inl e
          | Inr ps \<Rightarrow> Inr (if count = m then period # ps else ps)))"

text \<open>
  Lines 67 to 96: the three values computed from the orders read from the store, which
  line 97 passes to the constructor of the response.
\<close>

definition analyzeSalesTrends_compute ::
  "string option \<Rightarrow> Order list \<Rightarrow>
   py_exception + string list \<times> string list \<times> (int, customer_trend) dict" where
  "analyzeSalesTrends_compute customer_segment orders =
     (case orders_loop customer_segment orders ([], [], []) of
        Inl e \<Rightarrow> Inl e
      | Inr (peak_periods_list, top_products_count, customers_trend) \<Rightarrow>
         (let peak_periods_count = Counter peak_periods_list
          in case peak_comprehension peak_periods_count peak_periods_count of
               Inl e \<Rightarrow> Inl e
             | Inr top_peak_periods \<Rightarrow>
                (let sorted_top_products = take 5 (sorted_reverse snd top_products_count);
                     top_products_list = map fst sorted_top_products;
                     formatted_customer_trends =
                       map (\<lambda>(cust, data).
                              (cust, \<lparr>order_count = td_count data, segments = td_segments data\<rparr>))
                           customers_trend
                 in Inr (top_peak_periods, top_products_list, formatted_customer_trends))))"

text \<open>
  Lines 67 to 101: the aggregation, ending in the constructor call. The keys of
  \<open>formatted_customer_trends\<close> are the customer ids, integers.
\<close>

definition analyzeSalesTrends_aggregate ::
  "string option \<Rightarrow> Order list \<Rightarrow> py_exception + SalesTrendsResponse" where
  "analyzeSalesTrends_aggregate customer_segment orders =
     (case analyzeSalesTrends_compute customer_segment orders of
        Inl e \<Rightarrow> Inl e
      | Inr (top_peak_periods, top_products_list, formatted_customer_trends) \<Rightarrow>
          SalesTrendsResponse_init top_peak_periods top_products_list
            (map (\<lambda>kv. (PyInt (fst kv), snd kv)) formatted_customer_trends))"

text \<open>
  The enum \<^verbatim>\<open>prisma.enums.Role\<close> is generated from a schema that is not part of the
  sources, so the list of its member names is a parameter \<open>Role_enum\<close>. Reading
  \<^verbatim>\<open>prisma.enums.Role.X\<close> raises AttributeError when \<open>X\<close> is not a member.
\<close>

definition Role_getattr :: "string list \<Rightarrow> string \<Rightarrow> py_exception + string" where
  "Role_getattr Role_enum name =
     (if name \<in> set Role_enum then Inr name else Inl (AttributeError name))"

text \<open>
  The members that the handlers of the repository name without a diagnostic. The one other
  name, \<^verbatim>\<open>AnalyticsManager\<close>, occurs once, in analyzeSalesTrends, under the recorded
  diagnostic \<^verbatim>\<open>Cannot access member "AnalyticsManager" for type "type[Role]"\<close>.
\<close>

definition Role_declared :: "string list" where
  "Role_declared =
     [''Admin'', ''InventoryManager'', ''SalesManager'', ''OrderFulfillmentOfficer'',
      ''CustomerServiceRepresentative'', ''HumanResourcesManager'', ''SupplyChainCoordinator'']"

text \<open>The \<^verbatim>\<open>where\<close> argument of \<^verbatim>\<open>Order.prisma().find_many\<close>.\<close>

record order_filters =
  placedAt_gte :: string
  placedAt_lte :: string
  items_some_item_name :: "string option"
  customer_segment_is :: "string option"

text \<open>\<^verbatim>\<open>if product:\<close> holds for a string that is neither None nor empty.\<close>

definition truthy :: "string option \<Rightarrow> string option" where
  "truthy x = (case x of None \<Rightarrow> None | Some v \<Rightarrow> if v = [] then None else Some v)"

text \<open>
  The handler. The store read \<^verbatim>\<open>find_many\<close> belongs to the entity store, so it is a
  parameter: it answers a filter with the orders found or with an exception.
\<close>

definition analyzeSalesTrends ::
  "string list \<Rightarrow> (order_filters \<Rightarrow> py_exception + Order list) \<Rightarrow>
   string \<Rightarrow> string \<Rightarrow> string option \<Rightarrow> string option \<Rightarrow> User option \<Rightarrow>
   py_exception + SalesTrendsResponse" where
  "analyzeSalesTrends Role_enum find_many start_date end_date product customer_segment current_user =
     (case current_user of
        None \<Rightarrow> Inl (PermissionError ''Access denied: user is not authorized or not active.'')
      | Some u \<Rightarrow>
         (case Role_getattr Role_enum ''SalesManager'' of
            Inl e \<Rightarrow> Inl e
          | Inr r1 \<Rightarrow>
             (case Role_getattr Role_enum ''AnalyticsManager'' of
                Inl e \<Rightarrow> Inl e
              | Inr r2 \<Rightarrow>
                 if role u \<notin> set [r1, r2]
                 then Inl (PermissionError ''Access denied: user is not authorized or not active.'')
                 else (case find_many \<lparr>placedAt_gte = start_date, placedAt_lte = end_date,
                                        items_some_item_name = truthy product,
                                        customer_segment_is = truthy customer_segment\<rparr> of
                         Inl e \<Rightarrow> Inl e
                       | Inr orders \<Rightarrow> analyzeSalesTrends_aggregate customer_segment orders))))"

subsection \<open>The route GET /sales/trends\<close>

text \<open>
  \<^verbatim>\<open>fastapi.responses.Response\<close> is Starlette's plain response. Its constructor renders
  the content into the body at once: None gives the empty body, bytes are taken as they
  are, anything else is sent \<^verbatim>\<open>.encode(charset)\<close>, which a string has and a dict has
  not.
\<close>

datatype py_content =
    NoneContent | BytesContent string | StrContent string | DictContent "(string, string) dict"

record Response =
  body :: string
  status_code :: nat
  media_type :: string

definition Response_init :: "py_content \<Rightarrow> nat \<Rightarrow> string \<Rightarrow> py_exception + Response" where
  "Response_init content_arg status media =
     (case content_arg of
        NoneContent \<Rightarrow> Inr \<lparr>body = [], status_code = status, media_type = media\<rparr>
      | BytesContent b \<Rightarrow> Inr \<lparr>body = b, status_code = status, media_type = media\<rparr>
      | StrContent v \<Rightarrow> Inr \<lparr>body = v, status_code = status, media_type = media\<rparr>
      | DictContent d \<Rightarrow>
          Inl (AttributeError (repr_str ''dict'' @ '' object has no attribute '' @ repr_str ''encode'')))"

datatype route_result = Body SalesTrendsResponse | Raw Response

text \<open>
  The route function. An exception raised inside the \<^verbatim>\<open>except\<close> block leaves the
  function. \<^verbatim>\<open>jsonable_encoder\<close> gives a dict of strings back as it is; the logging call
  is left out.
\<close>

definition api_get_analyzeSalesTrends ::
  "string list \<Rightarrow> (order_filters \<Rightarrow> py_exception + Order list) \<Rightarrow>
   string \<Rightarrow> string \<Rightarrow> string option \<Rightarrow> string option \<Rightarrow> User option \<Rightarrow>
   py_exception + route_result" where
  "api_get_analyzeSalesTrends Role_enum find_many start_date end_date product customer_segment current_user =
     (case analyzeSalesTrends Role_enum find_many start_date end_date product customer_segment current_user of
        Inr res \<Rightarrow> Inr (Body res)
      | Inl e \<Rightarrow>
         (let res = [(''error'', str_exception e)]
          in case Response_init (DictContent res) 500 ''application/json'' of
               Inl e2 \<Rightarrow> Inl e2
             | Inr response \<Rightarrow> Inr (Raw response)))"

section \<open>The entity store\<close>

text \<open>
  The tables the three write handlers touch. The store is an external collaborator whose
  calls may fail: \<open>faults\<close> says, for one execution, which kind of call the store
  answers with an exception. A call that fails leaves the store as it was.
\<close>

record store =
  InventoryItem_table :: "int \<rightharpoonup> InventoryItem"
  InventoryLog_table :: "InventoryLog list"
  Order_table :: "int \<rightharpoonup> Order"
  OrderItem_table :: "int \<rightharpoonup> OrderItem"

datatype store_call =
    FindUnique_InventoryItem | Update_InventoryItem | Create_InventoryLog
  | FindUnique_Order | Delete_Order | FindUnique_OrderItem | Delete_OrderItem

type_synonym faults = "store_call \<Rightarrow> py_exception option"

definition InventoryItem_find_unique :: "faults \<Rightarrow> int \<Rightarrow> store \<Rightarrow> py_exception + InventoryItem option" where
  "InventoryItem_find_unique F i s =
     (case F FindUnique_InventoryItem of Some e \<Rightarrow> Inl e | None \<Rightarrow> Inr (InventoryItem_table s i))"

text \<open>\<^verbatim>\<open>update\<close> writes the row and returns it, or returns None when no row has the id.\<close>

definition InventoryItem_update ::
  "faults \<Rightarrow> int \<Rightarrow> (InventoryItem \<Rightarrow> InventoryItem) \<Rightarrow> store \<Rightarrow>
   (py_exception + InventoryItem option) \<times> store" where
  "InventoryItem_update F i f s =
     (case F Update_InventoryItem of
        Some e \<Rightarrow> (Inl e, s)
      | None \<Rightarrow>
         (case InventoryItem_table s i of
            None \<Rightarrow> (Inr None, s)
          | Some row \<Rightarrow>
              (Inr (Some (f row)), s\<lparr>InventoryItem_table := (InventoryItem_table s)(i \<mapsto> f row)\<rparr>)))"

definition InventoryLog_create ::
  "faults \<Rightarrow> int \<Rightarrow> int \<Rightarrow> string \<Rightarrow> int \<Rightarrow> store \<Rightarrow> (py_exception + InventoryLog) \<times> store" where
  "InventoryLog_create F itemId user change n s =
     (case F Create_InventoryLog of
        Some e \<Rightarrow> (Inl e, s)
      | None \<Rightarrow>
         (let row = \<lparr>log_id = int (length (InventoryLog_table s)) + 1, log_itemId = itemId,
                     changedBy = user, changeType = change, amount = n\<rparr>
          in (Inr row, s\<lparr>InventoryLog_table := InventoryLog_table s @ [row]\<rparr>)))"

definition Order_find_unique :: "faults \<Rightarrow> int \<Rightarrow> store \<Rightarrow> py_exception + Order option" where
  "Order_find_unique F i s =
     (case F FindUnique_Order of Some e \<Rightarrow> Inl e | None \<Rightarrow> Inr (Order_table s i))"

definition Order_delete :: "faults \<Rightarrow> int \<Rightarrow> store \<Rightarrow> (py_exception + Order option) \<times> store" where
  "Order_delete F i s =
     (case F Delete_Order of
        Some e \<Rightarrow> (Inl e, s)
      | None \<Rightarrow> (Inr (Order_table s i), s\<lparr>Order_table := (Order_table s)(i := None)\<rparr>))"

definition OrderItem_find_unique :: "faults \<Rightarrow> int \<Rightarrow> store \<Rightarrow> py_exception + OrderItem option" where
  "OrderItem_find_unique F i s =
     (case F FindUnique_OrderItem of Some e \<Rightarrow> Inl e | None \<Rightarrow> Inr (OrderItem_table s i))"

definition OrderItem_delete :: "faults \<Rightarrow> int \<Rightarrow> store \<Rightarrow> (py_exception + OrderItem option) \<times> store" where
  "OrderItem_delete F i s =
     (case F Delete_OrderItem of
        Some e \<Rightarrow> (Inl e, s)
      | None \<Rightarrow> (Inr (OrderItem_table s i), s\<lparr>OrderItem_table := (OrderItem_table s)(i := None)\<rparr>))"

section \<open>addSalesRecord\<close>

record SalesRecordResponse =
  sale_id :: int
  inventory_update_status :: string
  financial_record_status :: string

text \<open>
  The update's data is \<^verbatim>\<open>{"quantity": prisma.models.InventoryItem.quantity - quantity}\<close>:
  a read of the field \<open>quantity\<close> on the model class itself, evaluated before
  \<^verbatim>\<open>update\<close> is called. A required field of a pydantic model is no attribute of the
  class, so the read raises AttributeError (pydantic 2: with the field name as its text).
\<close>

definition model_class_getattr :: "string \<Rightarrow> string \<Rightarrow> py_exception + int" where
  "model_class_getattr cls field = Inl (AttributeError field)"

text \<open>
  \<open>sale_price\<close> is never read. The handler has no \<^verbatim>\<open>try\<close>: an exception leaves the
  store in the state reached.
\<close>

definition addSalesRecord ::
  "faults \<Rightarrow> int \<Rightarrow> int \<Rightarrow> 'p \<Rightarrow> User option \<Rightarrow> store \<Rightarrow>
   (py_exception + SalesRecordResponse) \<times> store" where
  "addSalesRecord F product_id quantity sale_price current_user s =
     (case InventoryItem_find_unique F product_id s of
        Inl e \<Rightarrow> (Inl e, s)
      | Inr None \<Rightarrow> (Inl (ValueError ''Inventory item not found''), s)
      | Inr (Some inventory_item) \<Rightarrow>
         if inv_quantity inventory_item < quantity
         then (Inl (ValueError ''Insufficient stock available''), s)
         else
         (case model_class_getattr ''InventoryItem'' ''quantity'' of
            Inl e \<Rightarrow> (Inl e, s)
          | Inr class_quantity \<Rightarrow>
          (case InventoryItem_update F product_id
                  (\<lambda>row. row\<lparr>inv_quantity := class_quantity - quantity\<rparr>) s of
             (Inl e, s1) \<Rightarrow> (Inl e, s1)
           | (Inr updated_inventory, s1) \<Rightarrow>
              (case current_user of
                 None \<Rightarrow> (Inl (NoneType_AttributeError ''id''), s1)
               | Some u \<Rightarrow>
                  (case InventoryLog_create F product_id (user_id u) ''Sold'' quantity s1 of
                     (Inl e, s2) \<Rightarrow> (Inl e, s2)
                   | (Inr inventory_log, s2) \<Rightarrow>
                      (case updated_inventory of
                         None \<Rightarrow>
                           (Inl (NoneType_AttributeError ''quantity''), s2)
                       | Some row \<Rightarrow>
                           (Inr \<lparr>sale_id = log_id inventory_log,
                                 inventory_update_status =
                                   ''Inventory updated to '' @ str_int (inv_quantity row) @ '' units.'',
                                 financial_record_status =
                                   ''Financial transaction logged successfully.''\<rparr>, s2)))))))"

section \<open>deleteOrder and deleteSalesRecord\<close>

text \<open>Both response classes have the two fields \<open>success\<close> and \<open>message\<close>.\<close>

record DeleteOrderResponse =
  success :: bool
  message :: string

type_synonym DeleteSalesResponse = DeleteOrderResponse

text \<open>
  The names bound in the module of deleteOrder: its imports, its class and its function.
  Reading a name that is neither bound there nor a builtin raises NameError.
\<close>

definition deleteOrder_globals :: "string list" where
  "deleteOrder_globals =
     [''Annotated'', ''prisma'', ''Depends'', ''BaseModel'', ''DeleteOrderResponse'', ''deleteOrder'']"

definition load_global :: "string list \<Rightarrow> string \<Rightarrow> py_exception + unit" where
  "load_global globals name =
     (if name \<in> set globals then Inr ()
      else Inl (NameError (''name '' @ repr_str name @ '' is not defined'')))"

text \<open>
  \<^verbatim>\<open>asyncio.gather(*updates)\<close> runs the pending inventory increments; here one after the
  other, stopping at the first that fails.
\<close>

fun gather_updates :: "faults \<Rightarrow> (int \<times> int) list \<Rightarrow> store \<Rightarrow> (py_exception + unit) \<times> store" where
  "gather_updates F [] s = (Inr (), s)"
| "gather_updates F ((itemId, n) # rest) s =
     (case InventoryItem_update F itemId (\<lambda>row. row\<lparr>inv_quantity := inv_quantity row + n\<rparr>) s of
        (Inl e, s1) \<Rightarrow> (Inl e, s1)
      | (Inr _, s1) \<Rightarrow> gather_updates F rest s1)"

text \<open>
  The loop over \<^verbatim>\<open>order.items\<close> only builds the update calls (\<open>updates\<close>); none of them
  runs before it is awaited by \<^verbatim>\<open>gather\<close>.
\<close>

definition deleteOrder ::
  "string list \<Rightarrow> faults \<Rightarrow> int \<Rightarrow> User option \<Rightarrow> store \<Rightarrow>
   (py_exception + DeleteOrderResponse) \<times> store" where
  "deleteOrder Role_enum F orderId current_user s =
     (case current_user of
        None \<Rightarrow> (Inl (NoneType_AttributeError ''role''), s)
      | Some u \<Rightarrow>
         (case Role_getattr Role_enum ''Admin'' of
            Inl e \<Rightarrow> (Inl e, s)
          | Inr r1 \<Rightarrow>
             (case Role_getattr Role_enum ''OrderFulfillmentOfficer'' of
                Inl e \<Rightarrow> (Inl e, s)
              | Inr r2 \<Rightarrow>
                 if role u \<notin> set [r1, r2]
                 then (Inr \<lparr>success = False, message = ''Permission denied.''\<rparr>, s)
                 else
                  (case Order_find_unique F orderId s of
                     Inl e \<Rightarrow> (Inl e, s)
                   | Inr None \<Rightarrow> (Inr \<lparr>success = False, message = ''Order not found.''\<rparr>, s)
                   | Inr (Some order) \<Rightarrow>
                      (let updates = map (\<lambda>item. (oi_itemId item, oi_quantity item)) (items order)
                       in case load_global deleteOrder_globals ''asyncio'' of
                            Inl e \<Rightarrow> (Inl e, s)
                          | Inr _ \<Rightarrow>
                             (case gather_updates F updates s of
                                (Inl e, s1) \<Rightarrow> (Inl e, s1)
                              | (Inr _, s1) \<Rightarrow>
                                 (case Order_delete F orderId s1 of
                                    (Inl e, s2) \<Rightarrow> (Inl e, s2)
                                  | (Inr _, s2) \<Rightarrow>
                                     (Inr \<lparr>success = True,
                                           message = ''Order successfully deleted and inventory updated.''\<rparr>,
                                      s2))))))))"

definition deleteSalesRecord ::
  "string list \<Rightarrow> faults \<Rightarrow> int \<Rightarrow> User option \<Rightarrow> store \<Rightarrow>
   (py_exception + DeleteSalesResponse) \<times> store" where
  "deleteSalesRecord Role_enum F i current_user s =
     (case current_user of
        None \<Rightarrow> (Inl (NoneType_AttributeError ''role''), s)
      | Some u \<Rightarrow>
         (case Role_getattr Role_enum ''SalesManager'' of
            Inl e \<Rightarrow> (Inl e, s)
          | Inr r1 \<Rightarrow>
             (case Role_getattr Role_enum ''Admin'' of
                Inl e \<Rightarrow> (Inl e, s)
              | Inr r2 \<Rightarrow>
                 if role u \<notin> set [r1, r2]
                 then (Inr \<lparr>success = False,
                            message = ''Insufficient permission to delete sales records.''\<rparr>, s)
                 else
                  (case OrderItem_find_unique F i s of
                     Inl e \<Rightarrow> (Inl e, s)
                   | Inr None \<Rightarrow> (Inr \<lparr>success = False, message = ''Sales record not found.''\<rparr>, s)
                   | Inr (Some order_item) \<Rightarrow>
                      (case InventoryItem_find_unique F (oi_itemId order_item) s of
                         Inl e \<Rightarrow> (Inl e, s)
                       | Inr inventory_item \<Rightarrow>
                          (case (case inventory_item of
                                   None \<Rightarrow> (Inr (), s)
                                 | Some _ \<Rightarrow>
                                    (case InventoryItem_update F (oi_itemId order_item)
                                            (\<lambda>row. row\<lparr>inv_quantity := inv_quantity row + oi_quantity order_item\<rparr>) s of
                                       (Inl e, s1) \<Rightarrow> (Inl e, s1)
                                     | (Inr _, s1) \<Rightarrow>
                                        (case InventoryLog_create F (oi_itemId order_item) (user_id u)
                                                ''Adjusted'' (oi_quantity order_item) s1 of
                                           (Inl e, s2) \<Rightarrow> (Inl e, s2)
                                         | (Inr _, s2) \<Rightarrow> (Inr (), s2)))) of
                             (Inl e, s3) \<Rightarrow> (Inl e, s3)
                           | (Inr _, s3) \<Rightarrow>
                              (case OrderItem_delete F i s3 of
                                 (Inl e, s4) \<Rightarrow> (Inl e, s4)
                               | (Inr _, s4) \<Rightarrow>
                                  (Inr \<lparr>success = True,
                                        message = ''Sales record deleted successfully and inventory restored.''\<rparr>,
                                   s4))))))))"

section \<open>Notions used to state the properties\<close>

text \<open>
  A tally adds each value to the running total of its key, a new key starting from 0.
  The three accumulators of the aggregation are tallies: of 1 per order under its period
  label, of the quantity of each line item under its product name, and of 1 per order
  under its customer id.
\<close>

definition tally_step :: "'k \<Rightarrow> int \<Rightarrow> ('k, int) dict \<Rightarrow> ('k, int) dict" where
  "tally_step k v d = dict_setitem k ((case map_of d k of None \<Rightarrow> 0 | Some c \<Rightarrow> c) + v) d"

definition tally :: "('k \<times> int) list \<Rightarrow> ('k, int) dict \<Rightarrow> ('k, int) dict" where
  "tally kvs d = fold (\<lambda>kv. tally_step (fst kv) (snd kv)) kvs d"

definition trend_of :: "string option \<Rightarrow> int \<times> int \<Rightarrow> int \<times> trend_data" where
  "trend_of seg kc = (fst kc, \<lparr>td_count = snd kc, td_segments = [seg]\<rparr>)"

text \<open>The position at which \<open>x\<close> is first met in \<open>xs\<close>.\<close>

definition first_seen :: "'a list \<Rightarrow> 'a \<Rightarrow> nat" where
  "first_seen xs x = length (takeWhile (\<lambda>y. y \<noteq> x) xs)"

text \<open>
  \<open>a\<close> stands before \<open>b\<close> in a descending stable order: its key is greater, or the
  keys are equal and \<open>a\<close> came first.
\<close>

definition stable_desc :: "('a \<Rightarrow> int) \<Rightarrow> ('a \<Rightarrow> nat) \<Rightarrow> 'a \<Rightarrow> 'a \<Rightarrow> bool" where
  "stable_desc key pos a b = (key b < key a \<or> (key a = key b \<and> pos a < pos b))"

text \<open>The ranges of the fields of a \<^verbatim>\<open>datetime\<close>.\<close>

definition valid_datetime :: "datetime \<Rightarrow> bool" where
  "valid_datetime t =
     (1 \<le> year t \<and> year t \<le> 9999 \<and> 1 \<le> month t \<and> month t \<le> 12 \<and>
      1 \<le> day t \<and> day t \<le> 31 \<and> hour t < 24 \<and> minute t < 60 \<and> second t < 60)"

text \<open>The period label of every order, and the number of orders of a period.\<close>

definition period_labels :: "Order list \<Rightarrow> string list" where
  "period_labels orders = map (\<lambda>ord. strftime_Y_m (placedAt ord)) orders"

definition period_count :: "Order list \<Rightarrow> string \<Rightarrow> int" where
  "period_count orders p = int (length (filter (\<lambda>ord. strftime_Y_m (placedAt ord) = p) orders))"

text \<open>
  The line items of all orders in the order the loops visit them, their product names, and
  the quantity sold of a product: the sum over all line items that carry its name.
\<close>

definition line_items :: "Order list \<Rightarrow> OrderItem list" where
  "line_items orders = concat (map items orders)"

definition product_names :: "Order list \<Rightarrow> string list" where
  "product_names orders = map (\<lambda>it. inv_name (oi_item it)) (line_items orders)"

definition total_quantity :: "Order list \<Rightarrow> string \<Rightarrow> int" where
  "total_quantity orders p =
     sum_list (map oi_quantity (filter (\<lambda>it. inv_name (oi_item it) = p) (line_items orders)))"

text \<open>
  Product \<open>p\<close> ranks before \<open>q\<close>: it sold more, or as much and was met first.
\<close>

definition ranks_before :: "Order list \<Rightarrow> string \<Rightarrow> string \<Rightarrow> bool" where
  "ranks_before orders p q =
     (total_quantity orders q < total_quantity orders p \<or>
      (total_quantity orders p = total_quantity orders q \<and>
       first_seen (product_names orders) p < first_seen (product_names orders) q))"

text \<open>The number of orders placed in the same month of the same year as \<open>ord\<close>.\<close>

definition month_orders :: "Order list \<Rightarrow> Order \<Rightarrow> int" where
  "month_orders orders ord =
     int (length (filter (\<lambda>other. year (placedAt other) = year (placedAt ord) \<and>
                                    month (placedAt other) = month (placedAt ord)) orders))"

definition customer_order_count :: "Order list \<Rightarrow> int \<Rightarrow> int" where
  "customer_order_count orders c = int (length (filter (\<lambda>ord. cust_id (customer ord) = c) orders))"

definition period_tally :: "Order list \<Rightarrow> (string, int) dict" where
  "period_tally orders = tally (map (\<lambda>ord. (strftime_Y_m (placedAt ord), 1)) orders) []"

definition product_tally :: "Order list \<Rightarrow> (string, int) dict" where
  "product_tally orders =
     tally (map (\<lambda>it. (inv_name (oi_item it), oi_quantity it)) (line_items orders)) []"

definition customer_tally :: "Order list \<Rightarrow> (int, int) dict" where
  "customer_tally orders = tally (map (\<lambda>ord. (cust_id (customer ord), 1)) orders) []"

subsection \<open>Concrete inputs\<close>

text \<open>
  An order placed in month \<open>m\<close> of year \<open>y\<close> by customer \<open>c\<close>, with one line item for
  each pair of a product name and a quantity.
\<close>

definition mk_order :: "int \<Rightarrow> nat \<Rightarrow> nat \<Rightarrow> int \<Rightarrow> (string \<times> int) list \<Rightarrow> Order" where
  "mk_order i y m c lines =
     \<lparr>order_id = i,
      placedAt = \<lparr>year = y, month = m, day = 1, hour = 0, minute = 0, second = 0\<rparr>,
      customer = \<lparr>cust_id = c\<rparr>,
      items = map (\<lambda>nq. \<lparr>oi_id = 0, oi_itemId = 0, oi_quantity = snd nq,
                          oi_item = \<lparr>inv_id = 0, inv_name = fst nq, inv_quantity = 0\<rparr>\<rparr>) lines\<rparr>"

text \<open>The scenario of the specification: ProductA x 3 and ProductB x 1 in 2024-01, ProductA x 2 in 2024-02.\<close>

definition scenario_orders :: "Order list" where
  "scenario_orders =
     [mk_order 1 2024 1 7 [(''ProductA'', 3)],
      mk_order 2 2024 1 8 [(''ProductB'', 1)],
      mk_order 3 2024 2 7 [(''ProductA'', 2)]]"

text \<open>Six products, two pairs of them with equal totals.\<close>

definition six_orders :: "Order list" where
  "six_orders =
     [mk_order 1 2024 1 7 [(''P1'', 2), (''P2'', 5)],
      mk_order 2 2024 2 8 [(''P3'', 2), (''P4'', 7), (''P5'', 1)],
      mk_order 3 2024 2 7 [(''P6'', 5)],
      mk_order 4 2024 1 9 []]"

text \<open>The execution of the entity store in which no call fails.\<close>

definition no_faults :: faults where
  "no_faults = (\<lambda>call. None)"

definition example_order :: Order where
  "example_order = mk_order 1 2024 1 7 [(''ProductA'', 3)]"

text \<open>A store with one inventory item (10 in stock), one order and one order item (3 units).\<close>

definition example_store :: store where
  "example_store =
     \<lparr>InventoryItem_table = [1 \<mapsto> \<lparr>inv_id = 1, inv_name = ''ProductA'', inv_quantity = 10\<rparr>],
      InventoryLog_table = [],
      Order_table = [1 \<mapsto> example_order],
      OrderItem_table = [1 \<mapsto> \<lparr>oi_id = 1, oi_itemId = 1, oi_quantity = 3,
                                  oi_item = \<lparr>inv_id = 1, inv_name = ''ProductA'', inv_quantity = 10\<rparr>\<rparr>]\<rparr>"

section \<open>Lemmas on dictionaries, tallies and the sort\<close>

lemma map_of_dict_setitem: "map_of (dict_setitem k v d) = (map_of d)(k \<mapsto> v)"
  by (induction d) (auto simp: fun_eq_iff)

lemma keys_dict_setitem_old: "k \<in> fst ` set d \<Longrightarrow> map fst (dict_setitem k v d) = map fst d"
proof (induction d)
  case Nil
  then show ?case by simp
next
  case (Cons a d)
  show ?case
  proof (cases "fst a = k")
    case True
    then show ?thesis by (cases a) simp
  next
    case False
    with Cons.prems have "k \<in> fst ` set d" by auto
    with Cons.IH False show ?thesis by (cases a) simp
  qed
qed

lemma keys_dict_setitem_new: "k \<notin> fst ` set d \<Longrightarrow> map fst (dict_setitem k v d) = map fst d @ [k]"
  by (induction d) auto

lemma keys_dict_setitem:
  "map fst (dict_setitem k v d) = (if k \<in> fst ` set d then map fst d else map fst d @ [k])"
  by (simp add: keys_dict_setitem_old keys_dict_setitem_new)

lemma dom_dict_setitem: "fst ` set (dict_setitem k v d) = insert k (fst ` set d)"
proof -
  have "set (map fst (dict_setitem k v d)) = insert k (set (map fst d))"
    unfolding keys_dict_setitem by auto
  then show ?thesis by simp
qed

lemma dict_setitem_twice: "dict_setitem k v (dict_setitem k w d) = dict_setitem k v d"
  by (induction d) auto

lemma dict_contains_iff: "dict_contains k d \<longleftrightarrow> k \<in> fst ` set d"
  by (simp add: dict_contains_def map_of_eq_None_iff)

lemma dict_setitem_trend_of:
  "dict_setitem k \<lparr>td_count = v, td_segments = [seg]\<rparr> (map (trend_of seg) d)
     = map (trend_of seg) (dict_setitem k v d)"
  by (induction d) (auto simp: trend_of_def)

lemma map_of_trend_of:
  "map_of (map (trend_of seg) d) k
     = map_option (\<lambda>c. \<lparr>td_count = c, td_segments = [seg]\<rparr>) (map_of d k)"
  by (induction d) (auto simp: trend_of_def)

lemma tally_Nil: "tally [] d = d" by (simp add: tally_def)
lemma tally_Cons: "tally (kv # kvs) d = tally kvs (tally_step (fst kv) (snd kv) d)" by (simp add: tally_def)
lemma tally_append: "tally (xs @ ys) d = tally ys (tally xs d)" by (simp add: tally_def)
lemma tally_snoc: "tally (xs @ [kv]) d = tally_step (fst kv) (snd kv) (tally xs d)" by (simp add: tally_def)

lemma items_loop_tally:
  "items_loop its d = Inr (tally (map (\<lambda>it. (inv_name (oi_item it), oi_quantity it)) its) d)"
proof (induction its arbitrary: d)
  case Nil
  show ?case by (simp add: tally_Nil)
next
  case (Cons it its)
  show ?case
  proof (cases "map_of d (inv_name (oi_item it))")
    case None
    then show ?thesis
      by (simp add: Cons.IH tally_Cons tally_step_def dict_contains_def dict_getitem_def
          map_of_dict_setitem dict_setitem_twice)
  next
    case (Some c)
    then show ?thesis
      by (simp add: Cons.IH tally_Cons tally_step_def dict_contains_def dict_getitem_def)
  qed
qed

lemma customer_step_tally:
  "customer_step seg ord (map (trend_of seg) d)
     = Inr (map (trend_of seg) (tally_step (cust_id (customer ord)) 1 d))"
proof (cases "map_of d (cust_id (customer ord))")
  case None
  then show ?thesis
    by (simp add: customer_step_def dict_contains_def dict_getitem_def map_of_dict_setitem
        dict_setitem_twice tally_step_def set_add_def map_of_trend_of dict_setitem_trend_of)
next
  case (Some c)
  then show ?thesis
    by (simp add: customer_step_def dict_contains_def dict_getitem_def map_of_dict_setitem
        dict_setitem_twice tally_step_def set_add_def map_of_trend_of dict_setitem_trend_of)
qed

lemma orders_loop_tally:
  "orders_loop seg os (pp, tpc, map (trend_of seg) d)
     = Inr (pp @ map (\<lambda>ord. strftime_Y_m (placedAt ord)) os,
            tally (concat (map (\<lambda>ord. map (\<lambda>it. (inv_name (oi_item it), oi_quantity it)) (items ord)) os)) tpc,
            map (trend_of seg) (tally (map (\<lambda>ord. (cust_id (customer ord), 1)) os) d))"
proof (induction os arbitrary: pp tpc d)
  case Nil
  show ?case by (simp add: tally_Nil)
next
  case (Cons ord os)
  show ?case
    by (simp add: items_loop_tally customer_step_tally Cons.IH tally_Cons tally_append)
qed

lemma Counter_update_tally: "Counter_update xs d = tally (map (\<lambda>x. (x, 1)) xs) d"
  by (induction xs arbitrary: d) (simp_all add: tally_Nil tally_Cons tally_step_def)

lemma Counter_tally: "Counter xs = tally (map (\<lambda>x. (x, 1)) xs) []"
  by (simp add: Counter_def Counter_update_tally)

lemma py_max_Cons: "py_max (y # ys) = Inr (Max (set (y # ys)))"
  using Max.set_eq_fold[of y ys] by (simp add: py_max_def)

lemma peak_comprehension_eq:
  "d \<noteq> [] \<Longrightarrow> peak_comprehension its d
      = Inr (map fst (filter (\<lambda>pc. snd pc = Max (set (map snd d))) its))"
proof (induction its)
  case Nil
  show ?case by simp
next
  case (Cons pc its)
  obtain y ys where d: "map snd d = y # ys" using Cons.prems by (cases d) auto
  obtain p c where pc: "pc = (p, c)" by (cases pc)
  show ?case using Cons d pc py_max_Cons[of y ys] by simp
qed

lemma dom_tally: "fst ` set (tally kvs d) = fst ` set d \<union> fst ` set kvs"
  by (induction kvs arbitrary: d) (auto simp: tally_Nil tally_Cons tally_step_def dom_dict_setitem)

lemma map_of_tally:
  "map_of (tally kvs d) k =
     (if k \<in> fst ` set kvs \<union> fst ` set d
      then Some ((case map_of d k of None \<Rightarrow> 0 | Some c \<Rightarrow> c)
                 + sum_list (map snd (filter (\<lambda>kv. fst kv = k) kvs)))
      else None)"
proof (induction kvs arbitrary: d)
  case Nil
  show ?case
  proof (cases "map_of d k")
    case None
    then show ?thesis by (simp add: tally_Nil map_of_eq_None_iff)
  next
    case (Some c)
    then have "k \<in> fst ` set d" by (metis map_of_eq_None_iff option.distinct(1))
    then show ?thesis using Some by (simp add: tally_Nil)
  qed
next
  case (Cons kv kvs)
  show ?case
    by (simp add: tally_Cons Cons.IH dom_dict_setitem tally_step_def map_of_dict_setitem)
qed

lemma distinct_tally: "distinct (map fst d) \<Longrightarrow> distinct (map fst (tally kvs d))"
  by (induction kvs arbitrary: d) (auto simp: tally_Nil tally_Cons tally_step_def keys_dict_setitem)

lemma first_seen_append: "x \<in> set xs \<Longrightarrow> first_seen (xs @ ys) x = first_seen xs x"
  by (simp add: first_seen_def takeWhile_append1)  

lemma first_seen_less: "x \<in> set xs \<Longrightarrow> first_seen xs x < length xs"
  unfolding first_seen_def by (induction xs) auto

lemma first_seen_new: "x \<notin> set xs \<Longrightarrow> first_seen (xs @ [x]) x = length xs"
  unfolding first_seen_def by (induction xs) auto

lemma tally_first_seen:
  "sorted_wrt (\<lambda>a b. first_seen (map fst kvs) a < first_seen (map fst kvs) b) (map fst (tally kvs []))"
proof (induction kvs rule: rev_induct)
  case Nil
  show ?case by (simp add: tally_Nil)
next
  case (snoc kv kvs)
  let ?ks = "map fst kvs"
  let ?T = "tally kvs []"
  have keys: "fst ` set ?T = fst ` set kvs" by (simp add: dom_tally)
  have old: "sorted_wrt (\<lambda>a b. first_seen (?ks @ [fst kv]) a < first_seen (?ks @ [fst kv]) b) (map fst ?T)"
  proof (rule sorted_wrt_mono_rel[OF _ snoc.IH])
    fix a b
    assume "a \<in> set (map fst ?T)" "b \<in> set (map fst ?T)"
      and "first_seen ?ks a < first_seen ?ks b"
    then show "first_seen (?ks @ [fst kv]) a < first_seen (?ks @ [fst kv]) b"
      using keys by (simp add: first_seen_append)
  qed
  show ?case
  proof (cases "fst kv \<in> fst ` set kvs")
    case True
    then show ?thesis using old keys by (simp add: tally_snoc tally_step_def keys_dict_setitem)
  next
    case False
    have lt: "\<forall>a \<in> set (map fst ?T).
                first_seen (?ks @ [fst kv]) a < first_seen (?ks @ [fst kv]) (fst kv)"
    proof
      fix a
      assume "a \<in> set (map fst ?T)"
      then have a: "a \<in> set ?ks" using keys by simp
      then have "first_seen (?ks @ [fst kv]) a = first_seen ?ks a" by (rule first_seen_append)
      moreover have "first_seen ?ks a < length ?ks" using a by (rule first_seen_less)
      moreover have "first_seen (?ks @ [fst kv]) (fst kv) = length ?ks"
        using False by (simp add: first_seen_new)
      ultimately show "first_seen (?ks @ [fst kv]) a < first_seen (?ks @ [fst kv]) (fst kv)"
        by simp
    qed
    have "map fst (tally (kvs @ [kv]) []) = map fst ?T @ [fst kv]"
      using False keys by (simp add: tally_snoc tally_step_def keys_dict_setitem)
    then show ?thesis using old lt by (simp add: sorted_wrt_append)
  qed
qed

lemma set_insort_reverse: "set (insort_reverse key x ys) = insert x (set ys)"
  by (induction ys) auto

lemma length_insort_reverse: "length (insort_reverse key x ys) = Suc (length ys)"
  by (induction ys) auto

lemma distinct_insort_reverse:
  "distinct (map f (insort_reverse key x ys)) \<longleftrightarrow> f x \<notin> f ` set ys \<and> distinct (map f ys)"
  by (induction ys) (auto simp: set_insort_reverse)

lemma sorted_reverse_Cons: "sorted_reverse key (x # xs) = insort_reverse key x (sorted_reverse key xs)"
  by (simp add: sorted_reverse_def)

lemma set_sorted_reverse: "set (sorted_reverse key xs) = set xs"
  by (induction xs) (simp_all add: sorted_reverse_def set_insort_reverse)

lemma length_sorted_reverse: "length (sorted_reverse key xs) = length xs"
  by (induction xs) (simp_all add: sorted_reverse_def length_insort_reverse)

lemma distinct_sorted_reverse:
  "distinct (map f (sorted_reverse key xs)) \<longleftrightarrow> distinct (map f xs)"
  by (induction xs) (simp_all add: sorted_reverse_def distinct_insort_reverse set_sorted_reverse[unfolded sorted_reverse_def])

lemma insort_reverse_stable:
  "sorted_wrt (stable_desc key pos) ys \<Longrightarrow> \<forall>y \<in> set ys. pos x < pos y
     \<Longrightarrow> sorted_wrt (stable_desc key pos) (insort_reverse key x ys)"
proof (induction ys)
  case Nil
  show ?case by simp
next
  case (Cons y ys)
  show ?case
  proof (cases "key y \<le> key x")
    case True
    have "stable_desc key pos x z" if "z \<in> set (y # ys)" for z
    proof -
      have "key z \<le> key y" using that Cons.prems(1) by (auto simp: stable_desc_def)
      moreover have "pos x < pos z" using that Cons.prems(2) by auto
      ultimately show ?thesis using True by (auto simp: stable_desc_def)
    qed
    then show ?thesis using True Cons.prems(1) by simp
  next
    case False
    then have "stable_desc key pos y x" by (simp add: stable_desc_def)
    then show ?thesis using False Cons by (auto simp: set_insort_reverse)
  qed
qed

lemma sorted_reverse_stable:
  "sorted_wrt (\<lambda>a b. pos a < pos b) xs \<Longrightarrow> sorted_wrt (stable_desc key pos) (sorted_reverse key xs)"
proof (induction xs)
  case Nil
  show ?case by (simp add: sorted_reverse_def)
next
  case (Cons x xs)
  then show ?case
    by (simp add: sorted_reverse_Cons insort_reverse_stable set_sorted_reverse)
qed

lemma sum_list_tally_key:
  "sum_list (map snd (filter (\<lambda>kv. fst kv = k) (map (\<lambda>x. (f x, q x)) xs)))
     = sum_list (map q (filter (\<lambda>x. f x = k) xs))"
  by (induction xs) auto

lemma sum_list_count_key:
  "sum_list (map snd (filter (\<lambda>kv. fst kv = k) (map (\<lambda>x. (f x, 1)) xs)))
     = int (length (filter (\<lambda>x. f x = k) xs))"
  by (induction xs) auto

lemma peak_comprehension_self:
  "peak_comprehension d d = Inr (map fst (filter (\<lambda>pc. snd pc = Max (set (map snd d))) d))"
  by (cases "d = []") (simp_all add: peak_comprehension_eq)

lemma dict_argmax:
  assumes dist: "distinct (map fst D)"
    and look: "\<And>k. map_of D k = (if k \<in> K then Some (g k) else None)"
  shows "set (map fst (filter (\<lambda>pc. snd pc = Max (set (map snd D))) D))
           = {k \<in> K. g k = Max (g ` K)}"
proof -
  have mem: "(k, c) \<in> set D \<longleftrightarrow> k \<in> K \<and> c = g k" for k c
    using map_of_eq_Some_iff[OF dist, of k c] look[of k] by (auto split: if_splits)
  have img: "snd ` set D = g ` K"
  proof
    show "snd ` set D \<subseteq> g ` K" using mem by force
    show "g ` K \<subseteq> snd ` set D"
    proof
      fix c assume "c \<in> g ` K"
      then obtain k where "k \<in> K" "c = g k" by auto
      then have "(k, c) \<in> set D" using mem by simp
      then show "c \<in> snd ` set D" by force
    qed
  qed
  show ?thesis using mem by (force simp: img)
qed


subsection \<open>The period label\<close>

lemma div_mod_10_eq:
  fixes a b :: nat
  assumes "a div 10 = b div 10" and "a mod 10 = b mod 10"
  shows "a = b"
proof -
  have "a = 10 * (a div 10) + a mod 10" by simp
  also have "\<dots> = 10 * (b div 10) + b mod 10" unfolding assms by (rule refl)
  also have "\<dots> = b" by simp
  finally show ?thesis .
qed

lemma digit_char_eq_iff: "digit_char a = digit_char b \<longleftrightarrow> a mod 10 = b mod 10"
  unfolding digit_char_def
  using nth_eq_iff_index_eq[of "''0123456789''" "a mod 10" "b mod 10"] by simp

lemma str_nat_small: "n < 10 \<Longrightarrow> str_nat n = [digit_char n]"
  by (simp add: str_nat.simps[of n])

lemma str_nat_large: "\<not> n < 10 \<Longrightarrow> str_nat n = str_nat (n div 10) @ [digit_char n]"
  by (simp add: str_nat.simps[of n])

lemma str_nat_not_Nil: "str_nat n \<noteq> []"
  by (cases "n < 10") (simp_all add: str_nat_small str_nat_large)

lemma str_nat_inj: "str_nat a = str_nat b \<Longrightarrow> a = b"
proof (induction a arbitrary: b rule: str_nat.induct)
  case (1 n)
  show ?case
  proof (cases "n < 10")
    case True
    note n = this
    show ?thesis
    proof (cases "b < 10")
      case True
      have "digit_char n = digit_char b"
        using "1.prems" n True by (simp add: str_nat_small)
      then show ?thesis using n True by (simp add: digit_char_eq_iff)
    next
      case False
      have "str_nat (b div 10) = []"
        using "1.prems" n False by (simp add: str_nat_small str_nat_large[of b])
      then show ?thesis using str_nat_not_Nil by blast
    qed
  next
    case False
    note n = this
    show ?thesis
    proof (cases "b < 10")
      case True
      have "str_nat (n div 10) = []"
        using "1.prems" n True by (simp add: str_nat_small str_nat_large[of n])
      then show ?thesis using str_nat_not_Nil by blast
    next
      case False
      have "str_nat (n div 10) = str_nat (b div 10)" and d: "digit_char n = digit_char b"
        using "1.prems" n False by (simp_all add: str_nat_large[of n] str_nat_large[of b])
      then have e1: "n div 10 = b div 10" using "1.IH"[OF n] by blast
      have e2: "n mod 10 = b mod 10" using d by (simp add: digit_char_eq_iff)
      show ?thesis by (rule div_mod_10_eq[OF e1 e2])
    qed
  qed
qed

lemma pad2_two_digits: "m < 100 \<Longrightarrow> pad2 m = [digit_char (m div 10), digit_char m]"
proof (cases "m < 10")
  case True
  then show ?thesis by (simp add: pad2_def str_nat_small digit_char_def)
next
  case False
  assume "m < 100"
  then have "m div 10 < 10" by simp
  then show ?thesis using False by (simp add: pad2_def str_nat_large[of m] str_nat_small)
qed

lemma pad2_inj:
  assumes "a < 100" and "b < 100" and "pad2 a = pad2 b"
  shows "a = b"
proof -
  have "digit_char (a div 10) = digit_char (b div 10)" and "digit_char a = digit_char b"
    using assms by (simp_all add: pad2_two_digits)
  then have "(a div 10) mod 10 = (b div 10) mod 10" and m: "a mod 10 = b mod 10"
    by (simp_all add: digit_char_eq_iff)
  moreover have "a div 10 < 10" and "b div 10 < 10" using assms(1,2) by simp_all
  ultimately have "a div 10 = b div 10" by simp
  then show ?thesis using m by (rule div_mod_10_eq)
qed

text \<open>
  Two valid timestamps get the same label exactly when they lie in the same month of the
  same year.
\<close>

lemma strftime_Y_m_same_month:
  assumes "valid_datetime s" and "valid_datetime t"
  shows "strftime_Y_m s = strftime_Y_m t \<longleftrightarrow> year s = year t \<and> month s = month t"
proof -
  have ms: "month s < 100" and mt: "month t < 100"
    using assms by (simp_all add: valid_datetime_def)
  have "strftime_Y_m s = strftime_Y_m t
          \<longleftrightarrow> str_nat (year s) = str_nat (year t) \<and> pad2 (month s) = pad2 (month t)"
    unfolding strftime_Y_m_def by (simp add: pad2_two_digits[OF ms] pad2_two_digits[OF mt])
  then show ?thesis using str_nat_inj[of "year s" "year t"] pad2_inj[OF ms mt] by auto
qed

lemma strftime_Y_m_example:
  "strftime_Y_m \<lparr>year = 2024, month = 1, day = 5, hour = 9, minute = 30, second = 0\<rparr> = ''2024-01''"
  "strftime_Y_m \<lparr>year = 999, month = 12, day = 5, hour = 9, minute = 30, second = 0\<rparr> = ''999-12''"
  by (simp_all add: strftime_Y_m_def pad2_def str_nat_small str_nat_large digit_char_def)

subsection \<open>The loops as tallies, continued\<close>

lemma compute_eq:
  "analyzeSalesTrends_compute seg orders =
     Inr (map fst (filter (\<lambda>pc. snd pc = Max (set (map snd (period_tally orders))))
                          (period_tally orders)),
          map fst (take 5 (sorted_reverse snd (product_tally orders))),
          map (\<lambda>kc. (fst kc, \<lparr>order_count = snd kc, segments = [seg]\<rparr>)) (customer_tally orders))"
proof -
  have loop: "orders_loop seg orders ([], [], [])
      = Inr (period_labels orders, product_tally orders, map (trend_of seg) (customer_tally orders))"
    using orders_loop_tally[of seg orders "[]" "[]" "[]"]
    by (simp add: period_labels_def product_tally_def customer_tally_def line_items_def map_concat comp_def)
  have cnt: "Counter (period_labels orders) = period_tally orders"
    by (simp add: Counter_tally period_labels_def period_tally_def comp_def)
  have fmt: "map (\<lambda>(cust, data). (cust, \<lparr>order_count = td_count data, segments = td_segments data\<rparr>))
                 (map (trend_of seg) d)
               = map (\<lambda>kc. (fst kc, \<lparr>order_count = snd kc, segments = [seg]\<rparr>)) d" for d
    by (simp add: trend_of_def)
  show ?thesis
    by (simp add: analyzeSalesTrends_compute_def loop cnt peak_comprehension_self fmt Let_def
        del: map_map)
qed

lemma period_tally_lookup:
  "map_of (period_tally orders) p =
     (if p \<in> set (period_labels orders) then Some (period_count orders p) else None)"
  by (simp add: period_tally_def map_of_tally sum_list_count_key period_labels_def
      period_count_def image_image)

lemma customer_tally_lookup:
  "map_of (customer_tally orders) c =
     (if c \<in> (\<lambda>ord. cust_id (customer ord)) ` set orders
      then Some (customer_order_count orders c) else None)"
  by (simp add: customer_tally_def map_of_tally sum_list_count_key customer_order_count_def
      image_image)

lemma product_tally_lookup:
  "map_of (product_tally orders) p =
     (if p \<in> set (product_names orders) then Some (total_quantity orders p) else None)"
  by (simp add: product_tally_def map_of_tally sum_list_tally_key product_names_def
      total_quantity_def image_image)

lemma distinct_period_tally: "distinct (map fst (period_tally orders))"
  by (simp add: period_tally_def distinct_tally)

lemma distinct_product_tally: "distinct (map fst (product_tally orders))"
  by (simp add: product_tally_def distinct_tally)

lemma distinct_customer_tally: "distinct (map fst (customer_tally orders))"
  by (simp add: customer_tally_def distinct_tally)

lemma product_tally_keys: "fst ` set (product_tally orders) = set (product_names orders)"
  by (simp add: product_tally_def dom_tally product_names_def image_image)

lemma product_tally_first_seen:
  "sorted_wrt (\<lambda>a b. first_seen (product_names orders) (fst a) < first_seen (product_names orders) (fst b))
     (product_tally orders)"
  using tally_first_seen[of "map (\<lambda>it. (inv_name (oi_item it), oi_quantity it)) (line_items orders)"]
  by (simp add: sorted_wrt_map product_tally_def product_names_def comp_def)

lemma product_tally_value:
  "(p, c) \<in> set (product_tally orders) \<Longrightarrow> c = total_quantity orders p"
  using map_of_eq_Some_iff[OF distinct_product_tally, of orders p c] product_tally_lookup[of orders p]
  by (auto split: if_splits)

lemma ranked_products:
  "sorted_wrt (ranks_before orders) (map fst (sorted_reverse snd (product_tally orders)))"
proof -
  let ?pos = "\<lambda>a. first_seen (product_names orders) (fst a)"
  let ?L = "sorted_reverse snd (product_tally orders)"
  have st: "sorted_wrt (stable_desc snd ?pos) ?L"
    by (rule sorted_reverse_stable) (rule product_tally_first_seen)
  have "sorted_wrt (\<lambda>a b. ranks_before orders (fst a) (fst b)) ?L"
  proof (rule sorted_wrt_mono_rel[OF _ st])
    fix a b
    assume a: "a \<in> set ?L" and b: "b \<in> set ?L" and ab: "stable_desc snd ?pos a b"
    have "snd a = total_quantity orders (fst a)"
      using a product_tally_value[of "fst a" "snd a" orders] by (simp add: set_sorted_reverse)
    moreover have "snd b = total_quantity orders (fst b)"
      using b product_tally_value[of "fst b" "snd b" orders] by (simp add: set_sorted_reverse)
    ultimately show "ranks_before orders (fst a) (fst b)"
      using ab by (auto simp: stable_desc_def ranks_before_def)
  qed
  then show ?thesis by (simp add: sorted_wrt_map)
qed

section \<open>The values computed by the aggregation\<close>

text \<open>
  The computation of lines 67 to 96 never raises: no KeyError from the tables, no
  ValueError from \<^verbatim>\<open>max\<close>.
\<close>

lemma compute_total: "\<exists>v. analyzeSalesTrends_compute customer_segment orders = Inr v"
  by (simp add: compute_eq)

text \<open>
  For a non-empty list of orders, the list of peak periods handed to the constructor is
  not empty, names no period twice, and holds exactly the labels whose number of orders is
  the greatest number of orders of any label.
\<close>

lemma computed_peak_periods:
  assumes "orders \<noteq> []"
  shows "\<exists>pp tp ct. analyzeSalesTrends_compute customer_segment orders = Inr (pp, tp, ct) \<and>
           pp \<noteq> [] \<and> distinct pp \<and>
           set pp =
             {p \<in> set (period_labels orders).
                period_count orders p = Max (period_count orders ` set (period_labels orders))}"
proof -
  let ?D = "period_tally orders"
  let ?K = "set (period_labels orders)"
  let ?peaks = "map fst (filter (\<lambda>pc. snd pc = Max (set (map snd ?D))) ?D)"
  have S: "set ?peaks = {p \<in> ?K. period_count orders p = Max (period_count orders ` ?K)}"
    by (rule dict_argmax[OF distinct_period_tally period_tally_lookup])
  have "?K \<noteq> {}" using assms by (simp add: period_labels_def)
  then have "Max (period_count orders ` ?K) \<in> period_count orders ` ?K"
    by (intro Max_in) auto
  then have nonempty: "set ?peaks \<noteq> {}" unfolding S by auto
  have ne: "?peaks \<noteq> []"
  proof
    assume e: "?peaks = []"
    have "set ?peaks = {}" unfolding e by simp
    then show False using nonempty by blast
  qed
  have di: "distinct ?peaks"
    by (rule distinct_map_filter) (rule distinct_period_tally)
  show ?thesis using S ne di by (simp add: compute_eq)
qed

lemma period_count_month_orders:
  assumes "\<forall>ord \<in> set orders. valid_datetime (placedAt ord)" and "ord \<in> set orders"
  shows "period_count orders (strftime_Y_m (placedAt ord)) = month_orders orders ord"
proof -
  have "filter (\<lambda>other. strftime_Y_m (placedAt other) = strftime_Y_m (placedAt ord)) orders
      = filter (\<lambda>other. year (placedAt other) = year (placedAt ord) \<and>
                         month (placedAt other) = month (placedAt ord)) orders"
  proof (rule filter_cong[OF refl])
    fix other
    assume "other \<in> set orders"
    then show "(strftime_Y_m (placedAt other) = strftime_Y_m (placedAt ord))
        = (year (placedAt other) = year (placedAt ord) \<and> month (placedAt other) = month (placedAt ord))"
      using assms by (simp add: strftime_Y_m_same_month)
  qed
  then show ?thesis by (simp add: period_count_def month_orders_def)
qed

text \<open>
  In terms of the months themselves: for orders with valid timestamps the list holds
  exactly the labels of the months with the greatest number of orders.
\<close>

lemma computed_peak_months:
  assumes "orders \<noteq> []" and valid: "\<forall>ord \<in> set orders. valid_datetime (placedAt ord)"
  shows "\<exists>pp tp ct. analyzeSalesTrends_compute customer_segment orders = Inr (pp, tp, ct) \<and>
           pp \<noteq> [] \<and> distinct pp \<and>
           set pp =
             {strftime_Y_m (placedAt ord) | ord.
                ord \<in> set orders \<and> month_orders orders ord = Max (month_orders orders ` set orders)}"
proof -
  from computed_peak_periods[OF assms(1), of customer_segment]
  obtain pp tp ct where c: "analyzeSalesTrends_compute customer_segment orders = Inr (pp, tp, ct)"
    and ne: "pp \<noteq> []" and di: "distinct pp"
    and S: "set pp = {p \<in> set (period_labels orders).
                period_count orders p = Max (period_count orders ` set (period_labels orders))}"
    by blast
  have img: "period_count orders ` set (period_labels orders) = month_orders orders ` set orders"
  proof -
    have "period_count orders ` set (period_labels orders)
        = (\<lambda>ord. period_count orders (strftime_Y_m (placedAt ord))) ` set orders"
      by (simp add: period_labels_def image_image)
    also have "\<dots> = month_orders orders ` set orders"
      by (rule image_cong[OF refl]) (rule period_count_month_orders[OF valid])
    finally show ?thesis .
  qed
  have "set pp = {strftime_Y_m (placedAt ord) | ord.
                ord \<in> set orders \<and> month_orders orders ord = Max (month_orders orders ` set orders)}"
    unfolding S img
    using period_count_month_orders[OF valid]
    by (auto simp: period_labels_def)
  then show ?thesis using c ne di by blast
qed

text \<open>
  The list of top products handed to the constructor has five names, or all products
  when there are fewer, each a product of the input and none twice; it is in descending
  order of the summed quantity, products with equal sums in the order in which they were
  first met; and every product left out ranks after every product listed.
\<close>

lemma computed_top_products:
  "\<exists>pp tp ct. analyzeSalesTrends_compute customer_segment orders = Inr (pp, tp, ct) \<and>
     length tp = min 5 (card (set (product_names orders))) \<and>
     distinct tp \<and>
     set tp \<subseteq> set (product_names orders) \<and>
     sorted_wrt (\<lambda>p q. total_quantity orders q \<le> total_quantity orders p) tp \<and>
     sorted_wrt (ranks_before orders) tp \<and>
     (\<forall>p \<in> set tp. \<forall>q \<in> set (product_names orders) - set tp. ranks_before orders p q)"
proof -
  let ?L = "sorted_reverse snd (product_tally orders)"
  let ?N = "map fst ?L"
  let ?top = "map fst (take 5 ?L)"
  have top: "?top = take 5 ?N" by (simp add: take_map)
  have setN: "set ?N = set (product_names orders)"
    using product_tally_keys[of orders] by (simp add: set_sorted_reverse)
  have distN: "distinct ?N"
    by (simp add: distinct_sorted_reverse distinct_product_tally)
  have lenN: "length ?N = card (set (product_names orders))"
    using distinct_card[OF distN] setN by simp
  have split: "sorted_wrt (ranks_before orders) (take 5 ?N @ drop 5 ?N)"
    using ranked_products[of orders] by simp
  have s1: "sorted_wrt (ranks_before orders) (take 5 ?N)"
    and s2: "\<forall>p \<in> set (take 5 ?N). \<forall>q \<in> set (drop 5 ?N). ranks_before orders p q"
    using split unfolding sorted_wrt_append by auto
  have s3: "sorted_wrt (\<lambda>p q. total_quantity orders q \<le> total_quantity orders p) (take 5 ?N)"
    by (rule sorted_wrt_mono_rel[OF _ s1]) (auto simp: ranks_before_def)
  have cover: "set ?N = set (take 5 ?N) \<union> set (drop 5 ?N)"
    by (metis append_take_drop_id set_append)
  have rest: "\<forall>p \<in> set (take 5 ?N). \<forall>q \<in> set (product_names orders) - set (take 5 ?N).
                ranks_before orders p q"
    using s2 cover setN by auto
  have sub: "set (take 5 ?N) \<subseteq> set (product_names orders)"
    using set_take_subset[of 5 ?N] setN by simp
  have len: "length (take 5 ?N) = min 5 (card (set (product_names orders)))"
    using lenN by (simp add: min.commute)
  have dist: "distinct (take 5 ?N)" using distN by (rule distinct_take)
  show ?thesis
    unfolding compute_eq using len dist sub s1 s3 rest by (simp add: top)
qed

text \<open>
  The dict of customer trends handed to the constructor has one entry for each customer
  id that occurs in the orders and no other; the entry's \<open>order_count\<close> is the number of
  orders of that customer and its \<open>segments\<close> is the list of the one filter value given.
\<close>

lemma computed_customer_trends:
  "\<exists>pp tp ct. analyzeSalesTrends_compute customer_segment orders = Inr (pp, tp, ct) \<and>
     distinct (map fst ct) \<and>
     (\<forall>c. map_of ct c =
        (if c \<in> (\<lambda>ord. cust_id (customer ord)) ` set orders
         then Some \<lparr>order_count = customer_order_count orders c, segments = [customer_segment]\<rparr>
         else None))"
proof -
  let ?f = "\<lambda>kc. (fst kc, \<lparr>order_count = snd kc, segments = [customer_segment]\<rparr>)"
  have look: "map_of (map ?f d) c
      = map_option (\<lambda>n. \<lparr>order_count = n, segments = [customer_segment]\<rparr>) (map_of d c)"
    for d :: "(int, int) dict" and c
    by (induction d) auto
  have keys: "map fst (map ?f d) = map fst d" for d :: "(int, int) dict"
    by (simp add: comp_def)
  show ?thesis
    unfolding compute_eq
    by (simp add: look keys distinct_customer_tally customer_tally_lookup del: map_map)
qed

section \<open>The constructor of the response\<close>

lemma aggregate_compute:
  "analyzeSalesTrends_aggregate seg orders =
     SalesTrendsResponse_init
       (map fst (filter (\<lambda>pc. snd pc = Max (set (map snd (period_tally orders))))
                        (period_tally orders)))
       (map fst (take 5 (sorted_reverse snd (product_tally orders))))
       (map (\<lambda>kc. (PyInt (fst kc), \<lparr>order_count = snd kc, segments = [seg]\<rparr>)) (customer_tally orders))"
  by (simp add: analyzeSalesTrends_aggregate_def compute_eq comp_def)

lemma int_keys_refused:
  "filter (\<lambda>kv. validate_str (fst kv) = None) (map (\<lambda>kc. (PyInt (fst kc), g kc)) d)
     = map (\<lambda>kc. (PyInt (fst kc), g kc)) d"
  by (induction d) auto

lemma customer_tally_not_Nil: "orders \<noteq> [] \<Longrightarrow> customer_tally orders \<noteq> []"
proof
  assume ne: "orders \<noteq> []" and e: "customer_tally orders = []"
  have "fst ` set (customer_tally orders) = (\<lambda>ord. cust_id (customer ord)) ` set orders"
    by (simp add: customer_tally_def dom_tally image_image)
  then show False using ne unfolding e by simp
qed

text \<open>
  On every non-empty list of orders the constructor refuses the integer keys: the
  aggregation raises, with one error for each customer.
\<close>

lemma aggregate_raises:
  assumes "orders \<noteq> []"
  shows "analyzeSalesTrends_aggregate seg orders =
           Inl (ValidationError
                  (validation_title (length (customer_tally orders)) ''SalesTrendsResponse''))"
  using customer_tally_not_Nil[OF assms]
  by (simp add: aggregate_compute SalesTrendsResponse_init_def int_keys_refused)

lemma scenario_customers: "length (customer_tally scenario_orders) = 2"
  by (simp add: customer_tally_def tally_def tally_step_def scenario_orders_def mk_order_def)

lemma six_customers: "length (customer_tally six_orders) = 3"
  by (simp add: customer_tally_def tally_def tally_step_def six_orders_def mk_order_def)

lemma single_customer: "length (customer_tally [ord]) = 1"
  by (simp add: customer_tally_def tally_def tally_step_def)

lemma validation_title_1: "validation_title (Suc 0) cls = ''1 validation error for '' @ cls"
  by (simp add: validation_title_def)

lemma validation_title_2: "validation_title 2 cls = ''2 validation errors for '' @ cls"
  by (simp add: validation_title_def str_nat.simps digit_char_def)

lemma validation_title_3: "validation_title 3 cls = ''3 validation errors for '' @ cls"
  by (simp add: validation_title_def str_nat.simps digit_char_def)

section \<open>Properties of the aggregation\<close>

text \<open>
  C1. The specification asks that for a non-empty collection of orders the returned
  \<open>peak_periods\<close> is non-empty and holds exactly the periods of greatest order count. The
  list the code computes is that list (\<open>computed_peak_periods\<close>,
  \<open>computed_peak_months\<close>), but no response is
  returned: on the scenario of the specification, three orders of two customers, the
  constructor of the response refuses the two integer customer ids as keys of
  \<open>customer_trends\<close> and the aggregation raises ValidationError.
\<close>

theorem analyzeSalesTrends_peak_periods_not_returned:
  "analyzeSalesTrends_aggregate None scenario_orders =
     Inl (ValidationError ''2 validation errors for SalesTrendsResponse'')"
  using aggregate_raises[of scenario_orders None]
  by (simp add: scenario_customers validation_title_2) (simp add: scenario_orders_def)

text \<open>
  C2. The specification asks that the returned \<open>top_products\<close> holds at most five
  products, those of greatest summed quantity, in descending stable order. The list the
  code computes is that list (\<open>computed_top_products\<close>), but no response is returned: on
  four orders of three customers and six products the aggregation raises ValidationError
  for the three integer keys.
\<close>

theorem analyzeSalesTrends_top_products_not_returned:
  "analyzeSalesTrends_aggregate None six_orders =
     Inl (ValidationError ''3 validation errors for SalesTrendsResponse'')"
  using aggregate_raises[of six_orders None]
  by (simp add: six_customers validation_title_3) (simp add: six_orders_def)

text \<open>
  C3. On an empty list of orders the aggregation returns, and does not raise: the maximum
  of the empty count table is never asked for and the constructor has no key to refuse.
  Its \<open>peak_periods\<close> and its \<open>top_products\<close> are empty (and so is \<open>customer_trends\<close>).
\<close>

theorem analyzeSalesTrends_empty:
  "analyzeSalesTrends_aggregate customer_segment [] =
     Inr \<lparr>peak_periods = [], top_products = [], customer_trends = []\<rparr>"
  by (simp add: analyzeSalesTrends_aggregate_def analyzeSalesTrends_compute_def Counter_def
      sorted_reverse_def SalesTrendsResponse_init_def)

text \<open>
  C4. The specification asks that the returned \<open>customer_trends\<close> maps each customer id
  to its number of orders and to the list of the one filter value. The dict the code
  computes does (\<open>computed_customer_trends\<close>), but it is keyed by the integer ids where
  the response class declares string keys, so it is never returned: on one order, with
  the filter value given, the aggregation raises ValidationError.
\<close>

theorem analyzeSalesTrends_customer_trends_not_returned:
  "analyzeSalesTrends_aggregate (Some ''vip'') [example_order] =
     Inl (ValidationError ''1 validation error for SalesTrendsResponse'')"
  using aggregate_raises[of "[example_order]" "Some ''vip''"]
  by (simp add: single_customer validation_title_1)

text \<open>
  C5. The specification asks that the aggregation never raises and always builds the
  response. The computation of the three values never raises (\<open>compute_total\<close>), but the
  constructor does: on a single order with one line item the aggregation raises
  ValidationError, and so it does on every non-empty list (\<open>aggregate_raises\<close>).
\<close>

theorem analyzeSalesTrends_aggregate_raises_on_one_order:
  "analyzeSalesTrends_aggregate None [mk_order 2 2024 3 8 [(''ProductB'', 1)]] =
     Inl (ValidationError ''1 validation error for SalesTrendsResponse'')"
  using aggregate_raises[of "[mk_order 2 2024 3 8 [(''ProductB'', 1)]]" None]
  by (simp add: single_customer validation_title_1)

section \<open>The permission check and the route\<close>

text \<open>
  When the enum declares both role names, the check is membership of the user's role in
  the two-element list, and a permitted call is the store read followed by the aggregation.
\<close>

lemma analyzeSalesTrends_declared:
  assumes "''SalesManager'' \<in> set Role_enum" "''AnalyticsManager'' \<in> set Role_enum"
  shows "analyzeSalesTrends Role_enum find_many start_date end_date product customer_segment (Some u) =
     (if role u \<noteq> ''SalesManager'' \<and> role u \<noteq> ''AnalyticsManager''
      then Inl (PermissionError ''Access denied: user is not authorized or not active.'')
      else (case find_many \<lparr>placedAt_gte = start_date, placedAt_lte = end_date,
                              items_some_item_name = truthy product,
                              customer_segment_is = truthy customer_segment\<rparr> of
              Inl e \<Rightarrow> Inl e
            | Inr orders \<Rightarrow> analyzeSalesTrends_aggregate customer_segment orders))"
  using assms by (simp add: analyzeSalesTrends_def Role_getattr_def)

lemma analyzeSalesTrends_absent_user:
  "analyzeSalesTrends Role_enum find_many start_date end_date product customer_segment None =
     Inl (PermissionError ''Access denied: user is not authorized or not active.'')"
  by (simp add: analyzeSalesTrends_def)

text \<open>
  C6. The specification asks for a PermissionError exactly when the user is absent or the
  role is outside SalesManager, AnalyticsManager. With the enum as the sources show it, which has
  no member AnalyticsManager, building the list of allowed roles raises AttributeError
  for every present user, whatever the role: a user whose role is outside the allowed
  set does not get the PermissionError, and a SalesManager is not let through.
\<close>

theorem analyzeSalesTrends_undeclared_role:
  "analyzeSalesTrends Role_declared find_many start_date end_date product customer_segment (Some u) =
     Inl (AttributeError ''AnalyticsManager'')"
  by (simp add: analyzeSalesTrends_def Role_getattr_def Role_declared_def)

text \<open>The route hands a returned response on; when the handler raises, the route raises.\<close>

lemma api_get_analyzeSalesTrends_returns:
  "analyzeSalesTrends Role_enum find_many start_date end_date product customer_segment current_user = Inr r
   \<Longrightarrow> api_get_analyzeSalesTrends Role_enum find_many start_date end_date product customer_segment current_user
        = Inr (Body r)"
  by (simp add: api_get_analyzeSalesTrends_def)

lemma api_get_analyzeSalesTrends_raises:
  "analyzeSalesTrends Role_enum find_many start_date end_date product customer_segment current_user = Inl e
   \<Longrightarrow> api_get_analyzeSalesTrends Role_enum find_many start_date end_date product customer_segment current_user
        = Inl (AttributeError (repr_str ''dict'' @ '' object has no attribute '' @ repr_str ''encode''))"
  by (simp add: api_get_analyzeSalesTrends_def Response_init_def)

text \<open>
  C8. The specification asks that, when the handler raises, the route returns a response
  with status code 500 and the body \<^verbatim>\<open>{"error": str(e)}\<close>. The route builds that dict
  but hands it to the plain Response, whose constructor cannot encode a dict: for an
  absent user, where the handler raises the permission error, the route itself raises
  AttributeError and returns no response. (The module of the route also imports
  \<^verbatim>\<open>date\<close> from \<^verbatim>\<open>typing\<close>, which has no such name.)
\<close>

theorem api_get_analyzeSalesTrends_raises_for_absent_user:
  "api_get_analyzeSalesTrends Role_enum find_many start_date end_date product customer_segment None =
     Inl (AttributeError (repr_str ''dict'' @ '' object has no attribute '' @ repr_str ''encode''))"
  by (simp add: api_get_analyzeSalesTrends_def analyzeSalesTrends_def Response_init_def)

section \<open>Properties of the write handlers\<close>

text \<open>addSalesRecord returns the store as it found it, on every path, and never returns a response.\<close>

lemma addSalesRecord_never_writes:
  "snd (addSalesRecord F product_id quantity sale_price current_user s) = s"
  by (simp add: addSalesRecord_def InventoryItem_find_unique_def model_class_getattr_def
      split: option.splits sum.splits)

lemma addSalesRecord_always_raises:
  "\<exists>e. fst (addSalesRecord F product_id quantity sale_price current_user s) = Inl e"
  by (simp add: addSalesRecord_def InventoryItem_find_unique_def model_class_getattr_def
      split: option.splits sum.splits)

text \<open>
  C7. The specification describes an execution in which the decrement is written and the
  creation of the log row then fails. The code has no such execution: with the item found
  and enough stock (10 in stock, 3 sold, no store call failing), building the data of the
  update reads \<open>quantity\<close> on the model class and raises AttributeError before
  \<^verbatim>\<open>update\<close> is called, so no decrement is written and the log row is never attempted.
\<close>

theorem addSalesRecord_raises_before_update:
  "addSalesRecord no_faults 1 3 (25::int) (Some \<lparr>user_id = 1, role = ''SalesManager''\<rparr>) example_store =
     (Inl (AttributeError ''quantity''), example_store)"
  by (simp add: addSalesRecord_def InventoryItem_find_unique_def model_class_getattr_def
      no_faults_def example_store_def)

text \<open>
  C9. When the caller's role is Admin or OrderFulfillmentOfficer and the order is found,
  deleteOrder raises NameError for \<^verbatim>\<open>asyncio\<close>, which the module never binds. The
  store is left as it was: no inventory update has run, the order is not deleted, and the
  success response is not reached.
\<close>

theorem deleteOrder_raises_NameError:
  assumes "''Admin'' \<in> set Role_enum" and "''OrderFulfillmentOfficer'' \<in> set Role_enum"
    and "role u = ''Admin'' \<or> role u = ''OrderFulfillmentOfficer''"
    and "F FindUnique_Order = None"
    and "Order_table s orderId = Some order"
  shows "deleteOrder Role_enum F orderId (Some u) s =
           (Inl (NameError (''name '' @ repr_str ''asyncio'' @ '' is not defined'')), s)"
  using assms
  by (auto simp: deleteOrder_def Role_getattr_def Order_find_unique_def load_global_def
      deleteOrder_globals_def)

theorem deleteOrder_raises_NameError_witness:
  "''Admin'' \<in> set Role_declared \<and> ''OrderFulfillmentOfficer'' \<in> set Role_declared \<and>
   (role \<lparr>user_id = 1, role = ''Admin''\<rparr> = ''Admin'' \<or>
    role \<lparr>user_id = 1, role = ''Admin''\<rparr> = ''OrderFulfillmentOfficer'') \<and>
   no_faults FindUnique_Order = None \<and>
   Order_table example_store 1 = Some example_order \<and>
   deleteOrder Role_declared no_faults 1 (Some \<lparr>user_id = 1, role = ''Admin''\<rparr>) example_store =
     (Inl (NameError (''name '' @ repr_str ''asyncio'' @ '' is not defined'')), example_store)"
proof -
  have a: "''Admin'' \<in> set Role_declared" and b: "''OrderFulfillmentOfficer'' \<in> set Role_declared"
    by (simp_all add: Role_declared_def)
  have c: "role \<lparr>user_id = 1, role = ''Admin''\<rparr> = ''Admin'' \<or>
    role \<lparr>user_id = 1, role = ''Admin''\<rparr> = ''OrderFulfillmentOfficer''" by simp
  have d: "no_faults FindUnique_Order = None" by (simp add: no_faults_def)
  have e: "Order_table example_store 1 = Some example_order" by (simp add: example_store_def)
  show ?thesis
    using deleteOrder_raises_NameError[where Role_enum = Role_declared and F = no_faults
        and u = "\<lparr>user_id = 1, role = ''Admin''\<rparr>" and s = example_store and orderId = 1
        and order = example_order] a b c d e
    by blast
qed

text \<open>
  C10. When the caller's role is neither SalesManager nor Admin, or the role is allowed
  and no order item has the id, deleteSalesRecord returns a response with
  \<open>success = False\<close> and leaves the store as it was: no inventory update, no log row,
  no deletion.
\<close>

theorem deleteSalesRecord_error_branches:
  assumes "''SalesManager'' \<in> set Role_enum" and "''Admin'' \<in> set Role_enum"
    and "role u \<notin> {''SalesManager'', ''Admin''} \<or>
         (F FindUnique_OrderItem = None \<and> OrderItem_table s i = None)"
  shows "\<exists>m. deleteSalesRecord Role_enum F i (Some u) s = (Inr \<lparr>success = False, message = m\<rparr>, s)"
  using assms
  by (auto simp: deleteSalesRecord_def Role_getattr_def OrderItem_find_unique_def)

theorem deleteSalesRecord_error_branches_witness:
  "''SalesManager'' \<in> set Role_declared \<and> ''Admin'' \<in> set Role_declared \<and>
   role \<lparr>user_id = 2, role = ''InventoryManager''\<rparr> \<notin> {''SalesManager'', ''Admin''} \<and>
   (\<exists>m. deleteSalesRecord Role_declared no_faults 1 (Some \<lparr>user_id = 2, role = ''InventoryManager''\<rparr>) example_store =
      (Inr \<lparr>success = False, message = m\<rparr>, example_store)) \<and>
   no_faults FindUnique_OrderItem = None \<and> OrderItem_table example_store 5 = None \<and>
   (\<exists>m. deleteSalesRecord Role_declared no_faults 5 (Some \<lparr>user_id = 1, role = ''Admin''\<rparr>) example_store =
      (Inr \<lparr>success = False, message = m\<rparr>, example_store))"
proof -
  have a: "''SalesManager'' \<in> set Role_declared" and b: "''Admin'' \<in> set Role_declared"
    by (simp_all add: Role_declared_def)
  have c: "role \<lparr>user_id = 2, role = ''InventoryManager''\<rparr> \<notin> {''SalesManager'', ''Admin''}"
    by simp
  have d: "no_faults FindUnique_OrderItem = None" by (simp add: no_faults_def)
  have e: "OrderItem_table example_store 5 = None" by (simp add: example_store_def)
  have c': "role \<lparr>user_id = 2, role = ''InventoryManager''\<rparr> \<notin> {''SalesManager'', ''Admin''} \<or>
         (no_faults FindUnique_OrderItem = None \<and> OrderItem_table example_store 1 = None)"
    using c by blast
  have e': "role \<lparr>user_id = 1, role = ''Admin''\<rparr> \<notin> {''SalesManager'', ''Admin''} \<or>
         (no_faults FindUnique_OrderItem = None \<and> OrderItem_table example_store 5 = None)"
    using d e by blast
  show ?thesis
    using deleteSalesRecord_error_branches[where Role_enum = Role_declared and F = no_faults
        and u = "\<lparr>user_id = 2, role = ''InventoryManager''\<rparr>" and s = example_store and i = 1]
      deleteSalesRecord_error_branches[where Role_enum = Role_declared and F = no_faults
        and u = "\<lparr>user_id = 1, role = ''Admin''\<rparr>" and s = example_store and i = 5]
      a b c c' d e e' by blast
qed

text \<open>The path of deleteSalesRecord past the error branches does write.\<close>

lemma deleteSalesRecord_success_example:
  "deleteSalesRecord Role_declared no_faults 1 (Some \<lparr>user_id = 1, role = ''Admin''\<rparr>) example_store
     = (Inr \<lparr>success = True, message = ''Sales record deleted successfully and inventory restored.''\<rparr>,
        example_store\<lparr>InventoryItem_table := [1 \<mapsto> \<lparr>inv_id = 1, inv_name = ''ProductA'', inv_quantity = 13\<rparr>],
          InventoryLog_table := [\<lparr>log_id = 1, log_itemId = 1, changedBy = 1, changeType = ''Adjusted'', amount = 3\<rparr>],
          OrderItem_table := Map.empty\<rparr>)"
  by (simp add: deleteSalesRecord_def Role_getattr_def Role_declared_def no_faults_def example_store_def
      OrderItem_find_unique_def InventoryItem_find_unique_def InventoryItem_update_def
      InventoryLog_create_def OrderItem_delete_def Let_def)

end
